theory Spec2Isabelle
  imports Complex_Main
begin

section \<open>Data model\<close>

text \<open>
  The dashboard of \<^verbatim>\<open>app.py\<close> keeps one table \<^verbatim>\<open>df_data\<close>, one row per census
  area, and two callbacks: \<^verbatim>\<open>update_map_and_stats\<close> (dropdowns to map and cache) and
  \<^verbatim>\<open>update_stats_on_click\<close> (click to detail panel).

  Numbers are modelled as exact rationals; a cell of a numeric column is \<open>None\<close> where
  pandas holds NaN. The three text columns of a row are record fields, every other
  column is looked up by name in \<open>cells\<close>.
\<close>

type_synonym column = string

datatype py_error = KeyError | ValueError | TypeError | IndexError

record region_row =
  ADAUID :: string
  PRNAME :: string
  CSDNAME :: string
  cells :: "column \<Rightarrow> rat option"

text \<open>\<open>df_columns\<close> lists the names of the numeric columns of the table.\<close>

record dataframe =
  df_columns :: "column list"
  df_rows :: "region_row list"

subsection \<open>Column catalog\<close>

definition title_column_selector :: "(string \<times> column) list" where
  "title_column_selector =
    [(''Immigrant number'', ''immigrant''),
     (''Score'', ''Average Score''),
     (''Quintile'', ''Average Quintile''),
     (''Weighted Score'', ''Population Weighted Score'')]"

definition time_periods :: "(string \<times> column) list" where
  "time_periods =
    [(''All Immigrants'', ''T1529''),
     (''Before 1980'', ''T1530''),
     (''From 1980 to 1990'', ''T1531''),
     (''From 1991 to 2000'', ''T1532''),
     (''From 2001 to 2010'', ''T1533''),
     (''From 2011 to 2021'', ''T1534''),
     (''From 2011 to 2015'', ''T1535''),
     (''From 2016 to 2021'', ''T1536'')]"

definition origin_regions :: "(string \<times> column) list" where
  "origin_regions =
    [(''Total Immigrants'', ''T1529''),
     (''Americas'', ''T1545''),
     (''Europe'', ''T1557''),
     (''Africa'', ''T1574''),
     (''Asia'', ''T1585''),
     (''Oceania & Others'', ''T1603'')]"

definition origin_countries :: "(string \<times> column) list" where
  "origin_countries =
    [(''Brazil'', ''T1546''),
     (''Colombia'', ''T1547''),
     (''Haiti'', ''T1550''),
     (''Jamaica'', ''T1551''),
     (''Mexico'', ''T1552''),
     (''USA'', ''T1555''),
     (''France'', ''T1560''),
     (''Germany'', ''T1561''),
     (''Italy'', ''T1564''),
     (''Poland'', ''T1566''),
     (''Russia'', ''T1569''),
     (''Ukraine'', ''T1571''),
     (''UK'', ''T1572''),
     (''Egypt'', ''T1577''),
     (''Ethiopia'', ''T1579''),
     (''Morocco'', ''T1580''),
     (''Nigeria'', ''T1581''),
     (''Somalia'', ''T1582''),
     (''Afghanistan'', ''T1586''),
     (''China'', ''T1592''),
     (''India'', ''T1599''),
     (''Iran'', ''T1587''),
     (''Lebanon'', ''T1589''),
     (''Pakistan'', ''T1600''),
     (''Philippines'', ''T1596''),
     (''Syria'', ''T1590'')]"

definition accessibility_modes :: "(string \<times> column) list" where
  "accessibility_modes =
    [(''Public Transit'', ''Transit_Accessibility''),
     (''Walking'', ''Walking_Accessibility'')]"

definition other_indicators :: "(string \<times> column) list" where
  "other_indicators =
    [(''CIMD Score'', ''Average Score''),
     (''Essential Services Accessibility Index (ESAI)'', ''ESAI-Norm''),
     (''Immigration Density Index'', ''IDI_ADA''),
     (''Recent Immigration Intensity'', ''RII_ADA'')]"

section \<open>The map callback\<close>

subsection \<open>Selection state\<close>

text \<open>
  The seven dropdown values, in the order of the callback's parameters. The period, region and
  data-type dropdowns are not clearable; the other three may deliver \<^verbatim>\<open>None\<close>.
\<close>

record selection =
  selected_period :: column
  selected_region :: column
  selected_country :: "column option"
  selected_accessibility :: "column option"
  selected_quantile :: rat
  selected_data_type :: string
  selected_other_indicators :: "column option"

text \<open>Python truthiness of an optional string: \<^verbatim>\<open>None\<close> and the empty string are false.\<close>

fun str_of :: "string option \<Rightarrow> string" where
  "str_of None = []"
| "str_of (Some s) = s"

definition truthy :: "string option \<Rightarrow> bool" where
  "truthy v \<longleftrightarrow> str_of v \<noteq> []"

subsection \<open>Column resolver (lines 391-405)\<close>

definition resolve_column :: "selection \<Rightarrow> py_error + (column \<times> string)" where
  "resolve_column s =
    (if selected_data_type s \<noteq> ''Immigrant number'' then
       (case map_of title_column_selector (selected_data_type s) of
          None \<Rightarrow> Inl KeyError
        | Some data_column \<Rightarrow> Inr (data_column, selected_data_type s @ '' by ADA''))
     else
       (let data_column =
          (if truthy (selected_country s) then str_of (selected_country s)
           else if truthy (selected_other_indicators s) then str_of (selected_other_indicators s)
           else if selected_region s \<noteq> ''T1529'' then selected_region s
           else if truthy (selected_accessibility s) then str_of (selected_accessibility s)
           else selected_period s)
        in Inr (data_column, ''Immigration by '' @ data_column)))"

subsection \<open>Quantiles of a numeric column\<close>

text \<open>
  \<^verbatim>\<open>Series.quantile(q)\<close> of pandas, with its default linear interpolation, on the values
  that are not NaN: the sorted values \<open>s\<close> of length \<open>n\<close> are read at the position
  \<open>q * (n - 1)\<close>, interpolating between the two neighbours. A \<open>q\<close> outside \<open>[0, 1]\<close>
  raises \<^verbatim>\<open>ValueError\<close>; an empty series gives NaN (\<open>None\<close>).
\<close>

definition quantile_value :: "rat list \<Rightarrow> rat \<Rightarrow> rat option" where
  "quantile_value xs q =
    (if xs = [] then None
     else
       (let s = sort xs;
            n = length s;
            pos = q * of_nat (n - 1);
            lo = nat \<lfloor>pos\<rfloor>;
            hi = min (lo + 1) (n - 1);
            gamma = pos - of_nat lo
        in Some (s ! lo + (s ! hi - s ! lo) * gamma)))"

definition series_quantile :: "rat list \<Rightarrow> rat \<Rightarrow> py_error + rat option" where
  "series_quantile xs q =
    (if q < 0 \<or> 1 < q then Inl ValueError else Inr (quantile_value xs q))"

text \<open>A comparison with NaN on either side is false.\<close>

fun cell_ge :: "rat option \<Rightarrow> rat option \<Rightarrow> bool" where
  "cell_ge (Some v) (Some t) = (t \<le> v)"
| "cell_ge _ _ = False"

subsection \<open>Filter stage (lines 407-409)\<close>

text \<open>The values of one column over a list of rows, NaN skipped.\<close>

definition column_values :: "column \<Rightarrow> ('a region_row_scheme) list \<Rightarrow> rat list" where
  "column_values c rs = List.map_filter (\<lambda>r. cells r c) rs"

text \<open>
  \<^verbatim>\<open>df_data[data_column]\<close> raises \<^verbatim>\<open>KeyError\<close> for a column the table does not have; a
  quantile of one of the three text columns raises \<^verbatim>\<open>TypeError\<close>.
\<close>

definition filter_stage :: "dataframe \<Rightarrow> column \<Rightarrow> rat \<Rightarrow> py_error + region_row list" where
  "filter_stage df data_column q =
    (if data_column \<in> {''ADAUID'', ''PRNAME'', ''CSDNAME''} then Inl TypeError
     else if data_column \<notin> set (df_columns df) then Inl KeyError
     else
       (let full_data = filter (\<lambda>r. cells r data_column \<noteq> None) (df_rows df)
        in case series_quantile (column_values data_column full_data) q of
             Inl e \<Rightarrow> Inl e
           | Inr threshold \<Rightarrow>
               Inr (filter (\<lambda>r. cell_ge (cells r data_column) threshold) full_data)))"

subsection \<open>Colour-scale bound (lines 414-416)\<close>

definition color_scale_max :: "rat list \<Rightarrow> rat option" where
  "color_scale_max vs =
    (case quantile_value vs (99 / 100) of
       None \<Rightarrow> None
     | Some max_value \<Rightarrow> Some (if max_value \<le> 0 then Max (set vs) else max_value))"

subsection \<open>Percent of total (lines 420-424)\<close>

text \<open>\<^verbatim>\<open>round(4)\<close> of pandas rounds half to even at the fourth decimal.\<close>

definition round_half_even :: "rat \<Rightarrow> int" where
  "round_half_even x =
    (let f = \<lfloor>x\<rfloor>; d = x - of_int f
     in if d < 1 / 2 then f else if 1 / 2 < d then f + 1 else if even f then f else f + 1)"

definition round4 :: "rat \<Rightarrow> rat" where
  "round4 x = of_int (round_half_even (x * 10000)) / 10000"

record plot_row = region_row +
  percent_of_total :: rat

definition with_percent :: "region_row \<Rightarrow> rat \<Rightarrow> plot_row" where
  "with_percent r p = region_row.extend r \<lparr>percent_of_total = p\<rparr>"

definition add_percent_of_total :: "column \<Rightarrow> region_row list \<Rightarrow> plot_row list" where
  "add_percent_of_total data_column df_plot =
    (let total_immigrants = sum_list (column_values data_column df_plot)
     in if 0 < total_immigrants then
          map (\<lambda>r. with_percent r
                 (case cells r data_column of
                    Some v \<Rightarrow> round4 (v / total_immigrants) * 100
                  | None \<Rightarrow> 0)) df_plot
        else map (\<lambda>r. with_percent r 0) df_plot)"

subsection \<open>The callback (lines 387-491)\<close>

text \<open>
  A figure is either a placeholder carrying only a title, the placeholder of the
  \<^verbatim>\<open>except\<close> branch (its title is \<^verbatim>\<open>Error:\<close> and the library's message), or the choropleth
  with the rows it draws, the colour column, the colour range and the title.
\<close>

record map_figure =
  fig_rows :: "plot_row list"
  fig_color :: column
  fig_range_color :: "rat \<times> rat option"
  fig_title :: string

datatype figure = Placeholder string | ErrorPlaceholder | Choropleth map_figure

text \<open>
  One record of \<^verbatim>\<open>df_plot.to_dict('records')\<close>: the row, and the names of the numeric columns
  that are keys of the dictionary.
\<close>

record cached_row = plot_row +
  dict_keys :: "column list"

definition to_dict_records :: "column list \<Rightarrow> plot_row list \<Rightarrow> cached_row list" where
  "to_dict_records cols rs = map (\<lambda>r. plot_row.extend r \<lparr>dict_keys = cols\<rparr>) rs"

text \<open>
  \<^verbatim>\<open>px.choropleth\<close> raises when a \<^verbatim>\<open>custom_data\<close> column is not in the frame; the text
  columns and \<^verbatim>\<open>percent_of_total\<close> always are.
\<close>

definition custom_data :: "column list" where
  "custom_data = [''T1529'', ''Average Quintile'', ''Average Score'']"

definition update_map_and_stats ::
  "dataframe \<Rightarrow> selection \<Rightarrow> py_error + (figure \<times> cached_row list option)" where
  "update_map_and_stats df s =
    (case resolve_column s of
       Inl e \<Rightarrow> Inl e
     | Inr (data_column, map_title) \<Rightarrow>
         (case filter_stage df data_column (selected_quantile s) of
            Inl e \<Rightarrow> Inl e
          | Inr df_plot \<Rightarrow>
              if length df_plot = 0 then Inr (Placeholder ''No Data Available'', None)
              else
                (let max_value = color_scale_max (column_values data_column df_plot);
                     df_plot' = add_percent_of_total data_column df_plot
                 in if set custom_data \<subseteq> set (df_columns df) then
                      Inr (Choropleth \<lparr>fig_rows = df_plot', fig_color = data_column,
                             fig_range_color = (0, max_value), fig_title = map_title\<rparr>,
                           Some (to_dict_records (df_columns df) df_plot'))
                    else Inr (ErrorPlaceholder, None))))"

section \<open>The click callback\<close>

subsection \<open>Click payload\<close>

text \<open>
  The payload arrives as JSON: a value of \<^verbatim>\<open>customdata\<close> is a string, a number or null.
  \<open>customdata = None\<close> is a point without that key. The click data is \<open>None\<close> before the
  first click and otherwise holds the list under \<^verbatim>\<open>'points'\<close>.
\<close>

datatype jval = JStr string | JNum rat | JNull

record point =
  customdata :: "jval list option"
  location :: string

text \<open>A fixed-point format (\<^verbatim>\<open>:,.0f\<close>, \<^verbatim>\<open>:.2f\<close>) accepts numbers only.\<close>

fun format_float :: "jval \<Rightarrow> py_error + rat" where
  "format_float (JNum x) = Inr x"
| "format_float (JStr s) = Inl ValueError"
| "format_float JNull = Inl TypeError"

text \<open>\<^verbatim>\<open>v * 100\<close>: a string is repeated, null raises.\<close>

fun times_100 :: "jval \<Rightarrow> py_error + jval" where
  "times_100 (JNum x) = Inr (JNum (x * 100))"
| "times_100 (JStr s) = Inr (JStr (concat (replicate 100 s)))"
| "times_100 JNull = Inl TypeError"

subsection \<open>Text summary (lines 513-524)\<close>

record text_info =
  info_city :: jval
  info_province :: jval
  info_zone :: jval
  info_total_immigrants :: rat
  info_percent_of_immigrants :: rat
  info_quintile :: jval
  info_score :: rat

definition text_info_children :: "jval list \<Rightarrow> py_error + text_info" where
  "text_info_children cd =
    (case format_float (cd ! 3) of
       Inl e \<Rightarrow> Inl e
     | Inr tot \<Rightarrow>
        (case times_100 (cd ! 4) of
           Inl e \<Rightarrow> Inl e
         | Inr scaled \<Rightarrow>
            (case format_float scaled of
               Inl e \<Rightarrow> Inl e
             | Inr pct \<Rightarrow>
                (case format_float (cd ! 6) of
                   Inl e \<Rightarrow> Inl e
                 | Inr score \<Rightarrow>
                     Inr \<lparr>info_city = cd ! 1, info_province = cd ! 0, info_zone = cd ! 2,
                          info_total_immigrants = tot, info_percent_of_immigrants = pct,
                          info_quintile = cd ! 5, info_score = score\<rparr>))))"

subsection \<open>Pie breakdown (lines 535-582)\<close>

text \<open>\<^verbatim>\<open>d.get(col_name, 0)\<close> on a cached record.\<close>

definition dict_get :: "cached_row \<Rightarrow> column \<Rightarrow> rat option" where
  "dict_get d col_name = (if col_name \<in> set (dict_keys d) then cells d col_name else Some 0)"

text \<open>\<^verbatim>\<open>pd.notna(value) and value > 0\<close>\<close>

fun positive :: "rat option \<Rightarrow> bool" where
  "positive (Some v) = (0 < v)"
| "positive None = False"

definition origin_pie_data :: "cached_row \<Rightarrow> (string \<times> rat option) list" where
  "origin_pie_data d = map (\<lambda>(label, col_name). (label, dict_get d col_name)) origin_countries"

definition total_origin_sum :: "(string \<times> rat option) list \<Rightarrow> rat" where
  "total_origin_sum pd = sum_list (List.map_filter (\<lambda>(label, value). if positive value then value else None) pd)"

text \<open>The loop of lines 549-556, with its three accumulators.\<close>

fun pie_loop ::
  "rat \<Rightarrow> (string \<times> rat option) list \<Rightarrow> string list \<times> rat list \<times> rat \<Rightarrow> string list \<times> rat list \<times> rat" where
  "pie_loop tot [] acc = acc"
| "pie_loop tot ((label, None) # rest) acc = pie_loop tot rest acc"
| "pie_loop tot ((label, Some v) # rest) (pie_labels, pie_values, others_sum) =
    (if 0 < v then
       (if 2 < v / tot * 100 then
          pie_loop tot rest (pie_labels @ [label], pie_values @ [v], others_sum)
        else pie_loop tot rest (pie_labels, pie_values, others_sum + v))
     else pie_loop tot rest (pie_labels, pie_values, others_sum))"

text \<open>The slices handed to the chart: labels and values after line 560.\<close>

definition pie_slices :: "cached_row \<Rightarrow> string list \<times> rat list" where
  "pie_slices d =
    (let pd = origin_pie_data d; tot = total_origin_sum pd
     in if 0 < tot then
          (case pie_loop tot pd ([], [], 0) of
             (pie_labels, pie_values, others_sum) \<Rightarrow>
               if 0 < others_sum then (pie_labels @ [''Others (<2%)''], pie_values @ [others_sum])
               else (pie_labels, pie_values))
        else ([], []))"

datatype chart = Chart "string list" "rat list" | Message string

definition pie_chart_children :: "cached_row option \<Rightarrow> chart" where
  "pie_chart_children hovered_region_data =
    (case hovered_region_data of
       None \<Rightarrow> Message ''Region data not found in cache for pie chart.''
     | Some d \<Rightarrow>
         (case pie_slices d of
            (pie_labels, pie_values) \<Rightarrow>
              if 0 < sum_list pie_values then Chart pie_labels pie_values
              else Message ''No detailed country of origin data available for this region.''))"

subsection \<open>Trend series (lines 585-630)\<close>

definition trend_periods_ordered :: "(string \<times> column) list" where
  "trend_periods_ordered =
    [(''Before 1980'', ''T1530''),
     (''1980-1990'', ''T1531''),
     (''1991-2000'', ''T1532''),
     (''2001-2010'', ''T1533''),
     (''2011-2021'', ''T1534'')]"

definition trend_series :: "cached_row \<Rightarrow> string list \<times> rat list" where
  "trend_series d =
    (map fst trend_periods_ordered,
     map (\<lambda>(label, col_name). case dict_get d col_name of Some value \<Rightarrow> value | None \<Rightarrow> 0)
       trend_periods_ordered)"

definition time_trend_chart_children :: "cached_row option \<Rightarrow> chart" where
  "time_trend_chart_children hovered_region_data =
    (case hovered_region_data of
       None \<Rightarrow> Message ''Region data not found in cache for trend chart.''
     | Some d \<Rightarrow>
         (case trend_series d of
            (trend_labels, trend_values) \<Rightarrow>
              if list_ex (\<lambda>v. 0 < v) trend_values then Chart trend_labels trend_values
              else Message ''No time trend data available for this region.''))"

subsection \<open>The callback (lines 499-632)\<close>

datatype stats_panel = Guidance string | Details text_info chart chart

definition update_stats_on_click ::
  "point list option \<Rightarrow> cached_row list option \<Rightarrow> py_error + stats_panel" where
  "update_stats_on_click click_data cached_data_list =
    (case (click_data, cached_data_list) of
       (Some points, Some (c # cs)) \<Rightarrow>
         (case points of
            [] \<Rightarrow> Inl IndexError
          | pt # _ \<Rightarrow>
              (case customdata pt of
                 None \<Rightarrow> Inr (Guidance ''Click on a region to see details (customdata issue).'')
               | Some cd \<Rightarrow>
                   if length cd < 7 then
                     Inr (Guidance ''Click on a region to see details (customdata issue).'')
                   else
                     (case text_info_children cd of
                        Inl e \<Rightarrow> Inl e
                      | Inr info \<Rightarrow>
                          (let hovered_region_data =
                                 find (\<lambda>d. ADAUID d = location pt) (c # cs)
                           in Inr (Details info (pie_chart_children hovered_region_data)
                                     (time_trend_chart_children hovered_region_data))))))
     | _ \<Rightarrow> Inr (Guidance ''Click on a region to see details.''))"

text \<open>
  The point a click on a drawn region delivers: its \<^verbatim>\<open>custom_data\<close> columns in the order of
  line 437 (NaN travels as null) and the region's identifier as location.
\<close>

fun jnum :: "rat option \<Rightarrow> jval" where
  "jnum (Some v) = JNum v"
| "jnum None = JNull"

definition point_of_row :: "plot_row \<Rightarrow> point" where
  "point_of_row r =
    \<lparr>customdata = Some [JStr (PRNAME r), JStr (CSDNAME r), JStr (ADAUID r),
                        jnum (cells r ''T1529''), JNum (percent_of_total r),
                        jnum (cells r ''Average Quintile''), jnum (cells r ''Average Score'')],
     location = ADAUID r\<rparr>"

section \<open>Example data\<close>

text \<open>A small table and a selection on which the properties below are evaluated.\<close>

definition example_row :: "string \<Rightarrow> (column \<times> rat) list \<Rightarrow> region_row" where
  "example_row ident kvs =
    \<lparr>ADAUID = ident, PRNAME = ''Ontario'', CSDNAME = ''Toronto'', cells = map_of kvs\<rparr>"

definition example_table :: dataframe where
  "example_table =
    \<lparr>df_columns = [''T1529'', ''T1545'', ''Average Quintile'', ''Average Score''],
     df_rows =
       [example_row ''a'' [(''T1529'', 10), (''Average Quintile'', 1), (''Average Score'', 2)],
        example_row ''b'' [(''Average Quintile'', 2), (''Average Score'', 3)],
        example_row ''c'' [(''T1529'', 30), (''Average Quintile'', 3), (''Average Score'', 4)],
        example_row ''d'' [(''T1529'', 20), (''Average Quintile'', 4), (''Average Score'', 5)]]\<rparr>"

definition example_selection :: "column \<Rightarrow> rat \<Rightarrow> selection" where
  "example_selection region q =
    \<lparr>selected_period = ''T1529'', selected_region = region, selected_country = None,
     selected_accessibility = None, selected_quantile = q,
     selected_data_type = ''Immigrant number'', selected_other_indicators = None\<rparr>"

definition drawn_rows :: "py_error + (figure \<times> cached_row list option) \<Rightarrow> plot_row list" where
  "drawn_rows res = (case res of Inr (Choropleth m, cache) \<Rightarrow> fig_rows m | _ \<Rightarrow> [])"

section \<open>Properties of the column resolver\<close>

lemma truthy_Some: "truthy v \<Longrightarrow> v = Some (str_of v)"
  by (cases v) (simp_all add: truthy_def)

text \<open>
  C1. For a data type of the catalog, the resolver returns one column, chosen by the first
  rule that applies: a data type other than "Immigrant number" gives its mapped column;
  otherwise a selected country, else a selected other indicator, else a region other than
  \<^verbatim>\<open>T1529\<close>, else a selected accessibility mode, else the period. A selected country
  therefore wins over any region. The table plays no part: whatever the table, a map that
  is drawn is coloured by that column.
\<close>

theorem resolve_column_precedence:
  assumes "selected_data_type s \<in> fst ` set title_column_selector"
  shows "\<exists>col title. resolve_column s = Inr (col, title) \<and>
     (selected_data_type s \<noteq> ''Immigrant number'' \<longrightarrow>
        map_of title_column_selector (selected_data_type s) = Some col) \<and>
     (selected_data_type s = ''Immigrant number'' \<longrightarrow>
        (truthy (selected_country s) \<longrightarrow> selected_country s = Some col) \<and>
        (\<not> truthy (selected_country s) \<and> truthy (selected_other_indicators s) \<longrightarrow>
           selected_other_indicators s = Some col) \<and>
        (\<not> truthy (selected_country s) \<and> \<not> truthy (selected_other_indicators s) \<and>
           selected_region s \<noteq> ''T1529'' \<longrightarrow> col = selected_region s) \<and>
        (\<not> truthy (selected_country s) \<and> \<not> truthy (selected_other_indicators s) \<and>
           selected_region s = ''T1529'' \<and> truthy (selected_accessibility s) \<longrightarrow>
           selected_accessibility s = Some col) \<and>
        (\<not> truthy (selected_country s) \<and> \<not> truthy (selected_other_indicators s) \<and>
           selected_region s = ''T1529'' \<and> \<not> truthy (selected_accessibility s) \<longrightarrow>
           col = selected_period s)) \<and>
     (\<forall>df m cache. update_map_and_stats df s = Inr (Choropleth m, cache) \<longrightarrow> fig_color m = col)"
proof -
  have handler: "\<forall>df m cache. update_map_and_stats df s = Inr (Choropleth m, cache) \<longrightarrow> fig_color m = col"
    if "resolve_column s = Inr (col, title)" for col title
    using that by (auto simp: update_map_and_stats_def Let_def split: sum.splits if_splits)
  show ?thesis
  proof (cases "selected_data_type s = ''Immigrant number''")
    case True
    define col where "col =
          (if truthy (selected_country s) then str_of (selected_country s)
           else if truthy (selected_other_indicators s) then str_of (selected_other_indicators s)
           else if selected_region s \<noteq> ''T1529'' then selected_region s
           else if truthy (selected_accessibility s) then str_of (selected_accessibility s)
           else selected_period s)"
    have r: "resolve_column s = Inr (col, ''Immigration by '' @ col)"
      using True by (simp add: resolve_column_def Let_def col_def)
    show ?thesis
      using True r handler[OF r] truthy_Some[of "selected_country s"]
        truthy_Some[of "selected_other_indicators s"] truthy_Some[of "selected_accessibility s"]
      by (simp add: col_def)
  next
    case False
    from assms obtain c where c: "map_of title_column_selector (selected_data_type s) = Some c"
      by (metis map_of_eq_None_iff not_Some_eq)
    then have r: "resolve_column s = Inr (c, selected_data_type s @ '' by ADA'')"
      using False by (simp add: resolve_column_def)
    show ?thesis using False r handler[OF r] c by simp
  qed
qed

text \<open>India selected together with the region Asia: the country's column is resolved.\<close>

theorem resolve_column_precedence_witness:
  "resolve_column \<lparr>selected_period = ''T1530'', selected_region = ''T1585'',
      selected_country = Some ''T1599'', selected_accessibility = None,
      selected_quantile = 0, selected_data_type = ''Immigrant number'',
      selected_other_indicators = None\<rparr> = Inr (''T1599'', ''Immigration by T1599'')"
proof -
  let ?s = "\<lparr>selected_period = ''T1530'', selected_region = ''T1585'',
      selected_country = Some ''T1599'', selected_accessibility = None,
      selected_quantile = 0, selected_data_type = ''Immigrant number'',
      selected_other_indicators = None\<rparr>"
  have h: "selected_data_type ?s \<in> fst ` set title_column_selector"
    by (simp add: title_column_selector_def)
  have t: "truthy (selected_country ?s)" by (simp add: truthy_def)
  from resolve_column_precedence[OF h] obtain col title where
    r: "resolve_column ?s = Inr (col, title)" and
    c: "selected_data_type ?s = ''Immigrant number'' \<longrightarrow>
          (truthy (selected_country ?s) \<longrightarrow> selected_country ?s = Some col)"
    by blast
  from c t have "col = ''T1599''" by simp
  moreover have "title = ''Immigration by T1599''"
    using r by (auto simp: resolve_column_def truthy_def Let_def)
  ultimately show ?thesis using r by simp
qed

section \<open>Properties of the quantile\<close>






section \<open>Properties of the filter stage\<close>






lemma cells_with_percent [simp]: "cells (with_percent r p) = cells r"
  by (simp add: with_percent_def region_row.defs)

lemma percent_with_percent [simp]: "percent_of_total (with_percent r p) = p"
  by (simp add: with_percent_def region_row.defs)

lemma ADAUID_with_percent [simp]: "ADAUID (with_percent r p) = ADAUID r"
  by (simp add: with_percent_def region_row.defs)

lemma column_values_map_cells:
  "column_values c (map f rs) = List.map_filter (\<lambda>r. cells (f r) c) rs"
  by (induction rs) (auto simp: column_values_def split: option.splits)

lemma column_values_add_percent:
  "column_values c (add_percent_of_total c' rs) = column_values c rs"
  by (simp add: add_percent_of_total_def Let_def column_values_map_cells) (simp add: column_values_def)

lemma filter_stage_present:
  assumes "filter_stage df c q = Inr kept"
  shows "\<forall>r\<in>set kept. cells r c \<noteq> None"
  using assms by (auto simp: filter_stage_def Let_def split: if_splits sum.splits)

lemma filter_stage_valid:
  assumes "filter_stage df c q = Inr kept"
  shows "c \<in> set (df_columns df)" "c \<notin> {''ADAUID'', ''PRNAME'', ''CSDNAME''}" "0 \<le> q" "q \<le> 1"
  using assms by (auto simp: filter_stage_def Let_def series_quantile_def split: if_splits sum.splits)

lemma update_map_drawn:
  assumes "update_map_and_stats df s = Inr (Choropleth m, cache)"
  obtains col title kept where
    "resolve_column s = Inr (col, title)"
    "filter_stage df col (selected_quantile s) = Inr kept"
    "kept \<noteq> []"
    "m = \<lparr>fig_rows = add_percent_of_total col kept, fig_color = col,
          fig_range_color = (0, color_scale_max (column_values col kept)), fig_title = title\<rparr>"
    "cache = Some (to_dict_records (df_columns df) (add_percent_of_total col kept))"
  using assms
  by (auto simp: update_map_and_stats_def Let_def split: sum.splits if_splits prod.splits)

lemma percent_list:
  assumes "\<forall>r\<in>set rs. cells r c \<noteq> None"
  shows "map percent_of_total (add_percent_of_total c rs) =
    (if 0 < sum_list (column_values c rs)
     then map (\<lambda>v. round4 (v / sum_list (column_values c rs)) * 100) (column_values c rs)
     else map (\<lambda>v. 0) (column_values c rs))"
proof -
  have "map (\<lambda>r. f (the (cells r c))) rs = map f (column_values c rs)" for f :: "rat \<Rightarrow> rat"
    using assms by (induction rs) (auto simp: column_values_def)
  note m = this
  have "map percent_of_total (add_percent_of_total c rs) =
    (if 0 < sum_list (column_values c rs)
     then map (\<lambda>r. round4 (the (cells r c) / sum_list (column_values c rs)) * 100) rs
     else map (\<lambda>r. 0) rs)"
    using assms by (auto simp: add_percent_of_total_def Let_def)
  also have "\<dots> = (if 0 < sum_list (column_values c rs)
     then map (\<lambda>v. round4 (v / sum_list (column_values c rs)) * 100) (column_values c rs)
     else map (\<lambda>v. 0) (column_values c rs))"
    using m[of "\<lambda>v. round4 (v / sum_list (column_values c rs)) * 100"] m[of "\<lambda>v. 0"] by simp
  finally show ?thesis .
qed

lemma round_half_even_error: "\<bar>of_int (round_half_even x) - x\<bar> \<le> 1 / 2"
proof -
  define f where "f = \<lfloor>x\<rfloor>"
  have b: "of_int f \<le> x" "x < of_int f + 1" unfolding f_def by linarith+
  have "round_half_even x = f \<and> x - of_int f \<le> 1 / 2 \<or>
        round_half_even x = f + 1 \<and> 1 / 2 \<le> x - of_int f"
    unfolding round_half_even_def Let_def f_def[symmetric] by auto
  then show ?thesis
  proof
    assume "round_half_even x = f \<and> x - of_int f \<le> 1 / 2"
    then show ?thesis using b by (simp add: abs_if)
  next
    assume a: "round_half_even x = f + 1 \<and> 1 / 2 \<le> x - of_int f"
    then have "of_int (round_half_even x) = (of_int f :: rat) + 1" by simp
    then show ?thesis using a b by (simp add: abs_if)
  qed
qed

lemma round4_error: "\<bar>round4 x - x\<bar> \<le> 1 / 20000"
proof -
  define e where "e = of_int (round_half_even (x * 10000)) - x * 10000"
  have "round4 x - x = e / 10000"
    by (simp add: round4_def e_def field_simps)
  then have "\<bar>round4 x - x\<bar> = \<bar>e\<bar> / 10000"
    by (simp only: abs_divide abs_numeral)
  moreover have "\<bar>e\<bar> \<le> 1 / 2" unfolding e_def by (rule round_half_even_error)
  ultimately show ?thesis by simp
qed

lemma rounded_sum_error:
  "\<bar>sum_list (map (\<lambda>v. round4 (v / T) * 100) vs) - sum_list vs / T * 100\<bar>
     \<le> of_nat (length vs) / 200"
proof (induction vs)
  case Nil
  then show ?case by simp
next
  case (Cons v vs)
  let ?A = "sum_list (map (\<lambda>v. round4 (v / T) * 100) vs)"
  let ?B = "sum_list vs / T * 100"
  have e: "\<bar>round4 (v / T) * 100 - v / T * 100\<bar> \<le> 1 / 200"
  proof -
    define a where "a = round4 (v / T)"
    define b where "b = v / T"
    have "a * 100 - b * 100 = (a - b) * 100" by (simp only: left_diff_distrib)
    then have "\<bar>a * 100 - b * 100\<bar> = \<bar>a - b\<bar> * 100" by (simp only: abs_mult abs_numeral)
    moreover have "\<bar>a - b\<bar> \<le> 1 / 20000" unfolding a_def b_def by (rule round4_error)
    ultimately show ?thesis unfolding a_def b_def by linarith
  qed
  have "sum_list (map (\<lambda>v. round4 (v / T) * 100) (v # vs)) - sum_list (v # vs) / T * 100
      = (round4 (v / T) * 100 - v / T * 100) + (?A - ?B)"
    by (simp add: add_divide_distrib algebra_simps)
  then have "\<bar>sum_list (map (\<lambda>v. round4 (v / T) * 100) (v # vs)) - sum_list (v # vs) / T * 100\<bar>
      \<le> \<bar>round4 (v / T) * 100 - v / T * 100\<bar> + \<bar>?A - ?B\<bar>"
    by (simp add: abs_triangle_ineq)
  also have "\<dots> \<le> 1 / 200 + of_nat (length vs) / 200" using e Cons.IH by linarith
  finally show ?case by (simp add: add_divide_distrib)
qed

lemma floor_rat_numeral_divide [simp]:
  "\<lfloor>numeral a / numeral b :: rat\<rfloor> = numeral a div numeral b"
  using floor_divide_of_int_eq[of "numeral a" "numeral b", where ?'a = rat] by simp

lemma floor_rat_one_divide [simp]:
  "\<lfloor>1 / numeral b :: rat\<rfloor> = 1 div numeral b"
  using floor_divide_of_int_eq[of 1 "numeral b", where ?'a = rat] by simp










text \<open>
  C8. When the filter stage leaves no row, the map callback returns the placeholder map titled
  "No Data Available" and no cached row set; it does not fail.
\<close>

theorem no_rows_placeholder:
  assumes "resolve_column s = Inr (col, title)"
    and "filter_stage df col (selected_quantile s) = Inr kept" and "length kept = 0"
  shows "update_map_and_stats df s = Inr (Placeholder ''No Data Available'', None)"
  using assms by (simp add: update_map_and_stats_def)

text \<open>The column \<^verbatim>\<open>T1545\<close> of the example table is missing in every row.\<close>

theorem no_rows_placeholder_witness:
  "update_map_and_stats example_table (example_selection ''T1545'' (3 / 4)) =
     Inr (Placeholder ''No Data Available'', None)"
proof -
  have r: "resolve_column (example_selection ''T1545'' (3 / 4)) = Inr (''T1545'', ''Immigration by T1545'')"
    by (simp add: resolve_column_def example_selection_def truthy_def Let_def)
  have f: "filter_stage example_table ''T1545'' (selected_quantile (example_selection ''T1545'' (3 / 4))) = Inr []"
    by (simp add: filter_stage_def series_quantile_def column_values_def Let_def example_table_def
        example_row_def quantile_value_def example_selection_def)
  show ?thesis by (rule no_rows_placeholder[OF r f]) simp
qed



end
